theory Spec2Isabelle
  imports Complex_Main
begin

section \<open>Errors and time\<close>

text \<open>
  Every panic and every error return of the Go source is a value of \<open>error\<close>; a function
  that can fail returns \<open>error + 'a\<close> with \<open>Inl\<close> for the failure.
\<close>

datatype error =
    NilPointerDereference
  | SchemePanic
  | UnparseableSchedule string string
  | TooManyMissedStartTimes
  | NotFound string
  | OtherError string

text \<open>
  A \<open>time.Time\<close> is an instant, kept as the number of nanoseconds since the Unix epoch.
  A \<open>time.Duration\<close> is an \<open>int64\<close> count of nanoseconds: products wrap around and
  \<open>Time.Sub\<close> saturates, both written out below.
\<close>

type_synonym time = int
type_synonym duration = int

definition Second :: duration where
  "Second = 1000000000"

definition maxDuration :: duration where
  "maxDuration = 2 ^ 63 - 1"

definition minDuration :: duration where
  "minDuration = - (2 ^ 63)"

definition wrap64 :: "int \<Rightarrow> int" where
  "wrap64 x = (x + 2 ^ 63) mod 2 ^ 64 - 2 ^ 63"

definition Before :: "time \<Rightarrow> time \<Rightarrow> bool" where
  "Before t u = (t < u)"

definition After :: "time \<Rightarrow> time \<Rightarrow> bool" where
  "After t u = (u < t)"

definition Add :: "time \<Rightarrow> duration \<Rightarrow> time" where
  "Add t d = t + d"

definition Sub :: "time \<Rightarrow> time \<Rightarrow> duration" where
  "Sub t u =
     (if maxDuration < t - u then maxDuration
      else if t - u < minDuration then minDuration
      else t - u)"

text \<open>
  The zero \<open>time.Time\<close> is 1 January of year 1, 00:00:00 UTC, which lies 62135596800
  seconds before the Unix epoch. \<open>IsZero\<close> on a \<open>*metav1.Time\<close> is true for the nil
  pointer as well.
\<close>

definition zeroTime :: time where
  "zeroTime = - 62135596800 * 1000000000"

definition IsZero :: "time option \<Rightarrow> bool" where
  "IsZero t = (case t of None \<Rightarrow> True | Some v \<Rightarrow> v = zeroTime)"

text \<open>
  Go's integer division truncates towards zero and the remainder takes the sign of the
  dividend.
\<close>

definition quot :: "int \<Rightarrow> int \<Rightarrow> int" where
  "quot a b = sgn a * sgn b * (\<bar>a\<bar> div \<bar>b\<bar>)"

definition rem :: "int \<Rightarrow> int \<Rightarrow> int" where
  "rem a b = a - b * quot a b"

text \<open>
  \<open>Duration.Seconds\<close> computes \<open>float64(d / Second) + float64(d % Second) / 1e9\<close>.
  The float64 arithmetic enters as a rounding operator \<open>fl\<close> applied after every
  conversion and operation; \<open>ieee_rounding\<close> lists the properties of IEEE 754
  round-to-nearest on binary64 that the results below rely on: it is monotone, exact on
  the integers of magnitude up to \<open>2 ^ 53\<close>, and its relative error is at most
  \<open>2 ^ 53\<close> to one.
\<close>

definition Seconds :: "(real \<Rightarrow> real) \<Rightarrow> duration \<Rightarrow> real" where
  "Seconds fl d =
     (let sec = quot d Second; nsec = rem d Second
      in fl (fl (of_int sec) + fl (fl (of_int nsec) / 1000000000)))"

definition ieee_rounding :: "(real \<Rightarrow> real) \<Rightarrow> bool" where
  "ieee_rounding fl =
     ((\<forall>x y. x \<le> y \<longrightarrow> fl x \<le> fl y) \<and>
      (\<forall>n::int. \<bar>n\<bar> \<le> 2 ^ 53 \<longrightarrow> fl (of_int n) = of_int n) \<and>
      (\<forall>x. \<bar>fl x - x\<bar> \<le> \<bar>x\<bar> / 2 ^ 53))"

section \<open>The collection interface\<close>

text \<open>
  \<open>utilsv1beta1.CollectionStatus\<close> is a string type with three named values; its zero
  value (the empty string) is what an uninitialised \<open>var status\<close> holds.
  \<open>collector.ResultStatus\<close> is an integer type with four named values; a value outside
  them matches no case of a \<open>switch\<close>.
\<close>

datatype CollectionStatus =
    CollectionStatusZero
  | CollectionStatusCollected
  | CollectionStatusInProgress
  | CollectionStatusFailed

datatype ResultStatus =
    Collected
  | InProgress
  | Failed
  | Unavailable
  | OtherResultStatus

text \<open>A \<open>collector.Result\<close>: the status and the job's error (its text; \<open>None\<close> is nil).\<close>

record Result =
  ResultStatus :: ResultStatus
  Err :: "string option"

text \<open>
  Modelled from the spec: the implementations of the \<open>collection\<close> interface
  (\<open>collectionTechsupport\<close> and its siblings) are not among the sources. The interface
  is a set of getters and setters over the fields the spec lists for a collection
  request: creation time, cron schedule, optional deadline seconds (an \<open>int64\<close>), and the
  status fields last-run time, next-schedule time, last-run status (nullable) and
  failure message (a string, empty if none). Each setter stores its argument in its field.
\<close>

record collection =
  CreationTimestamp :: time
  Schedule :: string
  StartingDeadlineSeconds :: "int option"
  NextScheduleTime :: "time option"
  LastRunTime :: "time option"
  LastRunStatus :: "CollectionStatus option"
  FailureMessage :: string

definition getCreationTimestamp :: "collection \<Rightarrow> time" where
  "getCreationTimestamp c = CreationTimestamp c"

definition getSchedule :: "collection \<Rightarrow> string" where
  "getSchedule c = Schedule c"

definition getNextScheduleTime_field :: "collection \<Rightarrow> time option" where
  "getNextScheduleTime_field c = NextScheduleTime c"

definition setNextScheduleTime :: "time option \<Rightarrow> collection \<Rightarrow> collection" where
  "setNextScheduleTime t c = c\<lparr>NextScheduleTime := t\<rparr>"

definition getLastRunTime :: "collection \<Rightarrow> time option" where
  "getLastRunTime c = LastRunTime c"

definition setLastRunTime :: "time option \<Rightarrow> collection \<Rightarrow> collection" where
  "setLastRunTime t c = c\<lparr>LastRunTime := t\<rparr>"

definition getStartingDeadlineSeconds :: "collection \<Rightarrow> int option" where
  "getStartingDeadlineSeconds c = StartingDeadlineSeconds c"

definition setLastRunStatus :: "CollectionStatus \<Rightarrow> collection \<Rightarrow> collection" where
  "setLastRunStatus s c = c\<lparr>LastRunStatus := Some s\<rparr>"

definition setFailureMessage :: "string \<Rightarrow> collection \<Rightarrow> collection" where
  "setFailureMessage m c = c\<lparr>FailureMessage := m\<rparr>"

section \<open>Folding a collector result into the status\<close>

text \<open>
  \<open>updateStatus\<close>: \<open>status\<close> and \<open>message\<close> start at their zero values; \<open>Failed\<close> reads
  \<open>result.Err.Error()\<close>, which panics on a nil error; \<open>Unavailable\<close> returns before
  either setter runs.
\<close>

definition updateStatus :: "Result \<Rightarrow> collection \<Rightarrow> error + collection" where
  "updateStatus result collectionInstance =
     (case ResultStatus result of
        Collected \<Rightarrow>
          Inr (setFailureMessage [] (setLastRunStatus CollectionStatusCollected collectionInstance))
      | InProgress \<Rightarrow>
          Inr (setFailureMessage [] (setLastRunStatus CollectionStatusInProgress collectionInstance))
      | Failed \<Rightarrow>
          (case Err result of
             None \<Rightarrow> Inl NilPointerDereference
           | Some message \<Rightarrow>
               Inr (setFailureMessage message (setLastRunStatus CollectionStatusFailed collectionInstance)))
      | Unavailable \<Rightarrow> Inr collectionInstance
      | OtherResultStatus \<Rightarrow>
          Inr (setFailureMessage [] (setLastRunStatus CollectionStatusZero collectionInstance)))"

definition isCollectionInProgress :: "CollectionStatus option \<Rightarrow> bool" where
  "isCollectionInProgress lastRunStatus =
     (case lastRunStatus of None \<Rightarrow> False | Some s \<Rightarrow> s = CollectionStatusInProgress)"

section \<open>The scheduler\<close>

text \<open>
  The cron library is a collaborator. A parsed schedule is known by its \<open>Next\<close> method,
  and \<open>cron.ParseStandard\<close> enters as a parameter that yields either the parser's error
  text or a schedule.
\<close>

type_synonym cronSchedule = "time \<Rightarrow> time"

definition maxNumberOfFailures :: nat where
  "maxNumberOfFailures = 100"

text \<open>
  The loop of \<open>getNextScheduleTime\<close>, from its current \<open>t\<close> and \<open>starts\<close>: it ends with
  the error once \<open>starts\<close> has passed the ceiling, and with nothing when \<open>t\<close> is no longer
  before \<open>now\<close>.
\<close>

function missedStarts :: "cronSchedule \<Rightarrow> time \<Rightarrow> time \<Rightarrow> nat \<Rightarrow> error option" where
  "missedStarts sched now t starts =
     (if Before t now then
        (if maxNumberOfFailures < starts + 1 then Some TooManyMissedStartTimes
         else missedStarts sched now (sched t) (starts + 1))
      else None)"
  by pat_completeness auto
termination
  by (relation "measure (\<lambda>(sched, now, t, starts). 101 - starts)")
     (auto simp: maxNumberOfFailures_def)

definition getNextScheduleTime ::
  "(string \<Rightarrow> string + cronSchedule) \<Rightarrow> collection \<Rightarrow> time \<Rightarrow> error + time" where
  "getNextScheduleTime ParseStandard collectionInstance now =
     (case ParseStandard (getSchedule collectionInstance) of
        Inl e \<Rightarrow> Inl (UnparseableSchedule (getSchedule collectionInstance) e)
      | Inr sched \<Rightarrow>
          (let lastOrCreation =
                 (case getLastRunTime collectionInstance of
                    Some t \<Rightarrow> t
                  | None \<Rightarrow> getCreationTimestamp collectionInstance);
               earliestTime =
                 (case getStartingDeadlineSeconds collectionInstance of
                    None \<Rightarrow> lastOrCreation
                  | Some secs \<Rightarrow>
                      (let schedulingDeadline = Add now (wrap64 (- Second * secs))
                       in if After schedulingDeadline lastOrCreation then schedulingDeadline
                          else lastOrCreation))
           in case missedStarts sched now (sched earliestTime) 0 of
                Some e \<Rightarrow> Inl e
              | None \<Rightarrow> Inr (sched now)))"

definition ignoreTimeInSecond :: real where
  "ignoreTimeInSecond = 30"

text \<open>
  \<open>shouldSchedule\<close> reads the clock itself (\<open>now\<close>) and dereferences the next-schedule
  time before anything else, so a nil one is a panic.
\<close>

definition shouldSchedule :: "(real \<Rightarrow> real) \<Rightarrow> collection \<Rightarrow> time \<Rightarrow> error + bool" where
  "shouldSchedule fl collectionInstance now =
     (case getNextScheduleTime_field collectionInstance of
        None \<Rightarrow> Inl NilPointerDereference
      | Some nextTime \<Rightarrow>
          (if Before now nextTime then Inr False
           else (case getLastRunTime collectionInstance of
                   Some lastRun \<Rightarrow> Inr (ignoreTimeInSecond \<le> Seconds fl (Sub now lastRun))
                 | None \<Rightarrow> Inr True)))"

text \<open>
  A schedule that fires at every multiple of \<open>p\<close> nanoseconds, such as the one
  \<open>*/5 * * * *\<close> denotes for \<open>p\<close> of five minutes; used as a sample schedule only.
\<close>

definition every :: "int \<Rightarrow> cronSchedule" where
  "every p t = (t div p + 1) * p"

text \<open>
  The contract of a schedule with occurrence times \<open>occ\<close> (spec, external interfaces):
  \<open>Next t\<close> is the first occurrence strictly greater than \<open>t\<close>.
\<close>

definition next_occurrence :: "time set \<Rightarrow> cronSchedule \<Rightarrow> bool" where
  "next_occurrence occ sched =
     (\<forall>t. sched t \<in> occ \<and> t < sched t \<and> (\<forall>u\<in>occ. t < u \<longrightarrow> sched t \<le> u))"

section \<open>Event filters\<close>

text \<open>
  The two watched target kinds, with the fields the code reads. Labels are a Go map, nil
  (\<open>None\<close>) or not; \<open>reflect.DeepEqual\<close> tells a nil map from an empty one and otherwise
  compares keys and values, which is equality of the \<open>option\<close> of maps. A CAPI cluster
  reports readiness in \<open>Status.ControlPlaneReady\<close>, a SveltosCluster in \<open>Status.Ready\<close>.
\<close>

record Cluster =
  cluster_Namespace :: string
  cluster_Name :: string
  cluster_Labels :: "(string \<rightharpoonup> string) option"
  cluster_DeletionTimestamp :: "time option"
  cluster_Paused :: bool
  cluster_ControlPlaneReady :: bool

record SveltosCluster =
  sveltos_Namespace :: string
  sveltos_Name :: string
  sveltos_Labels :: "(string \<rightharpoonup> string) option"
  sveltos_DeletionTimestamp :: "time option"
  sveltos_Paused :: bool
  sveltos_Ready :: bool

definition DeepEqual :: "(string \<rightharpoonup> string) option \<Rightarrow> (string \<rightharpoonup> string) option \<Rightarrow> bool" where
  "DeepEqual a b = (a = b)"

text \<open>
  Each filter first builds its logger from the (new) object's namespace and name, which
  panics when that object is nil.
\<close>

definition ClusterPredicate_Create :: "Cluster option \<Rightarrow> error + bool" where
  "ClusterPredicate_Create obj =
     (case obj of
        None \<Rightarrow> Inl NilPointerDereference
      | Some cluster \<Rightarrow> if \<not> cluster_Paused cluster then Inr True else Inr False)"

definition ClusterPredicate_Update :: "Cluster option \<Rightarrow> Cluster option \<Rightarrow> error + bool" where
  "ClusterPredicate_Update ObjectOld ObjectNew =
     (case ObjectNew of
        None \<Rightarrow> Inl NilPointerDereference
      | Some newCluster \<Rightarrow>
          (case ObjectOld of
             None \<Rightarrow> Inr True
           | Some oldCluster \<Rightarrow>
               if cluster_Paused oldCluster \<and> \<not> cluster_Paused newCluster then Inr True
               else if \<not> DeepEqual (cluster_Labels oldCluster) (cluster_Labels newCluster)
                 then Inr True
               else Inr False))"

definition ClusterPredicate_Delete :: "Cluster option \<Rightarrow> error + bool" where
  "ClusterPredicate_Delete obj =
     (case obj of None \<Rightarrow> Inl NilPointerDereference | Some cluster \<Rightarrow> Inr True)"

definition ClusterPredicate_Generic :: "Cluster option \<Rightarrow> error + bool" where
  "ClusterPredicate_Generic obj =
     (case obj of None \<Rightarrow> Inl NilPointerDereference | Some cluster \<Rightarrow> Inr False)"

definition SveltosClusterPredicate_Create :: "SveltosCluster option \<Rightarrow> error + bool" where
  "SveltosClusterPredicate_Create obj =
     (case obj of
        None \<Rightarrow> Inl NilPointerDereference
      | Some cluster \<Rightarrow> if \<not> sveltos_Paused cluster then Inr True else Inr False)"

definition SveltosClusterPredicate_Update ::
  "SveltosCluster option \<Rightarrow> SveltosCluster option \<Rightarrow> error + bool" where
  "SveltosClusterPredicate_Update ObjectOld ObjectNew =
     (case ObjectNew of
        None \<Rightarrow> Inl NilPointerDereference
      | Some newCluster \<Rightarrow>
          (case ObjectOld of
             None \<Rightarrow> Inr True
           | Some oldCluster \<Rightarrow>
               if sveltos_Paused oldCluster \<and> \<not> sveltos_Paused newCluster then Inr True
               else if \<not> sveltos_Ready oldCluster \<and> sveltos_Ready newCluster then Inr True
               else if \<not> DeepEqual (sveltos_Labels oldCluster) (sveltos_Labels newCluster)
                 then Inr True
               else Inr False))"

definition SveltosClusterPredicate_Delete :: "SveltosCluster option \<Rightarrow> error + bool" where
  "SveltosClusterPredicate_Delete obj =
     (case obj of None \<Rightarrow> Inl NilPointerDereference | Some cluster \<Rightarrow> Inr True)"

definition SveltosClusterPredicate_Generic :: "SveltosCluster option \<Rightarrow> error + bool" where
  "SveltosClusterPredicate_Generic obj =
     (case obj of None \<Rightarrow> Inl NilPointerDereference | Some cluster \<Rightarrow> Inr False)"

section \<open>The reverse index\<close>

text \<open>
  A \<open>corev1.ObjectReference\<close> with the four fields the code fills in; it is the key of
  every map below, compared field by field.
\<close>

record ObjectReference =
  ref_Namespace :: string
  ref_Name :: string
  ref_Kind :: string
  ref_APIVersion :: string

text \<open>
  \<open>libsveltosset.Set\<close> is a library set of object references with \<open>Insert\<close>, \<open>Erase\<close>,
  \<open>Has\<close> and \<open>Difference\<close>. \<open>Difference\<close> hands back its elements as a slice in the
  iteration order of a Go map, which is unspecified, each element once; the model keeps
  them as a set.
\<close>

type_synonym Set = "ObjectReference set"

definition Insert :: "ObjectReference \<Rightarrow> Set \<Rightarrow> Set" where
  "Insert entry s = insert entry s"

definition Erase :: "ObjectReference \<Rightarrow> Set \<Rightarrow> Set" where
  "Erase entry s = s - {entry}"

definition Has :: "Set \<Rightarrow> ObjectReference \<Rightarrow> bool" where
  "Has s entry = (entry \<in> s)"

definition Difference :: "Set \<Rightarrow> Set \<Rightarrow> ObjectReference set" where
  "Difference s b = {k \<in> s. \<not> Has b k}"

text \<open>
  Type information of an object: the group, version and kind its \<open>TypeMeta\<close> denotes.
  \<open>GroupVersionKind.String\<close> is the library's rendering of the three.
\<close>

record GroupVersionKind =
  gvk_Group :: string
  gvk_Version :: string
  gvk_Kind :: string

definition gvk_String :: "GroupVersionKind \<Rightarrow> string" where
  "gvk_String gvk = gvk_Group gvk @ ''/'' @ gvk_Version gvk @ '', Kind='' @ gvk_Kind gvk"

definition APIVersionInternal :: string where
  "APIVersionInternal = ''__internal''"

text \<open>
  The Techsupport object, with the fields the code reads or writes. The selector is kept
  abstract (\<open>'sel\<close>): the code stores it and hands it to the label library, nothing more.
\<close>

record 'sel Techsupport =
  ts_Namespace :: string
  ts_Name :: string
  ts_TypeMeta :: GroupVersionKind
  ts_CreationTimestamp :: time
  ts_DeletionTimestamp :: "time option"
  ts_Finalizers :: "string list"
  spec_ClusterSelector :: 'sel
  spec_Schedule :: string
  spec_StartingDeadlineSeconds :: "int option"
  spec_Storage :: string
  status_MatchingClusterRefs :: "ObjectReference list"
  status_LastRunTime :: "time option"
  status_NextScheduleTime :: "time option"
  status_LastRunStatus :: "CollectionStatus option"
  status_FailureMessage :: string

text \<open>
  The three package-level maps guarded by \<open>mux\<close>. Their declarations are outside the
  sources at hand; \<open>updateMaps\<close> assigns into them, so they are made (empty, not nil)
  before the first call, which is the state \<open>emptyMaps\<close>. Every access happens with the
  lock held from the start to the end of \<open>updateMaps\<close> or \<open>cleanMaps\<close>, so each of the two
  is one step on this state.
\<close>

record 'sel maps =
  techsupportMap :: "ObjectReference \<rightharpoonup> Set"
  clusterMap :: "ObjectReference \<rightharpoonup> Set"
  techsupports :: "ObjectReference \<rightharpoonup> 'sel"

definition emptyMaps :: "'sel maps" where
  "emptyMaps = \<lparr>techsupportMap = Map.empty, clusterMap = Map.empty, techsupports = Map.empty\<rparr>"

text \<open>
  A scheme is known by what \<open>ObjectKinds\<close> answers for an object of Techsupport type:
  the registered kinds, or \<open>None\<close> for its error. \<open>utils.GetScheme\<close> may hand back a nil
  scheme (its error is dropped by the caller), on which \<open>ObjectKinds\<close> panics.
\<close>

type_synonym Scheme = "GroupVersionKind list option"

definition usableKind :: "GroupVersionKind \<Rightarrow> bool" where
  "usableKind gvk =
     (gvk_Kind gvk \<noteq> [] \<and> gvk_Version gvk \<noteq> [] \<and> gvk_Version gvk \<noteq> APIVersionInternal)"

definition addTypeInformationToObject ::
  "Scheme option \<Rightarrow> 'sel Techsupport \<Rightarrow> error + 'sel Techsupport" where
  "addTypeInformationToObject scheme obj =
     (case scheme of
        None \<Rightarrow> Inl NilPointerDereference
      | Some ObjectKinds \<Rightarrow>
          (case ObjectKinds of
             None \<Rightarrow> Inl SchemePanic
           | Some gvks \<Rightarrow>
               (case find usableKind gvks of
                  None \<Rightarrow> Inr obj
                | Some gvk \<Rightarrow> Inr (obj\<lparr>ts_TypeMeta := gvk\<rparr>))))"

text \<open>
  \<open>getKeyFromObject\<close> returns the key together with the object, whose type information
  it has set on the way.
\<close>

definition getKeyFromObject ::
  "Scheme option \<Rightarrow> 'sel Techsupport \<Rightarrow> error + (ObjectReference \<times> 'sel Techsupport)" where
  "getKeyFromObject GetScheme obj =
     (case addTypeInformationToObject GetScheme obj of
        Inl e \<Rightarrow> Inl e
      | Inr obj' \<Rightarrow>
          Inr (\<lparr>ref_Namespace = ts_Namespace obj', ref_Name = ts_Name obj',
                ref_Kind = gvk_Kind (ts_TypeMeta obj'),
                ref_APIVersion = gvk_String (ts_TypeMeta obj')\<rparr>, obj'))"

text \<open>
  \<open>getClusterMapForEntry\<close> returns the set stored for \<open>entry\<close>, storing an empty one
  first when there is none. The caller then inserts into, or erases from, that very set:
  \<open>insertConsumer\<close> and \<open>eraseConsumer\<close> are the two uses, with the changed set written
  back where the pointer points.
\<close>

definition getClusterMapForEntry ::
  "ObjectReference \<Rightarrow> (ObjectReference \<rightharpoonup> Set) \<Rightarrow> Set \<times> (ObjectReference \<rightharpoonup> Set)" where
  "getClusterMapForEntry entry cm =
     (case cm entry of None \<Rightarrow> ({}, cm(entry \<mapsto> {})) | Some s \<Rightarrow> (s, cm))"

definition insertConsumer ::
  "ObjectReference \<Rightarrow> ObjectReference \<Rightarrow> (ObjectReference \<rightharpoonup> Set) \<Rightarrow> (ObjectReference \<rightharpoonup> Set)" where
  "insertConsumer techsupportInfo clusterInfo cm =
     (case getClusterMapForEntry clusterInfo cm of
        (s, cm') \<Rightarrow> cm'(clusterInfo \<mapsto> Insert techsupportInfo s))"

definition eraseConsumer ::
  "ObjectReference \<Rightarrow> ObjectReference \<Rightarrow> (ObjectReference \<rightharpoonup> Set) \<Rightarrow> (ObjectReference \<rightharpoonup> Set)" where
  "eraseConsumer techsupportInfo clusterInfo cm =
     (case getClusterMapForEntry clusterInfo cm of
        (s, cm') \<Rightarrow> cm'(clusterInfo \<mapsto> Erase techsupportInfo s))"

text \<open>
  The loop over \<open>toBeRemoved\<close>: its elements are distinct and each iteration changes the
  entry of its own element only, so the loop is given by what it does at each key.
\<close>

definition eraseConsumers ::
  "ObjectReference \<Rightarrow> ObjectReference set \<Rightarrow> (ObjectReference \<rightharpoonup> Set) \<Rightarrow> (ObjectReference \<rightharpoonup> Set)" where
  "eraseConsumers techsupportInfo toBeRemoved cm =
     (\<lambda>c. if c \<in> toBeRemoved then eraseConsumer techsupportInfo c cm c else cm c)"

definition updateMaps ::
  "Scheme option \<Rightarrow> 'sel Techsupport \<Rightarrow> 'sel maps \<Rightarrow> error + ('sel Techsupport \<times> 'sel maps)" where
  "updateMaps GetScheme techsupport m =
     (let currentClusters = fold Insert (status_MatchingClusterRefs techsupport) {}
      in case getKeyFromObject GetScheme techsupport of
           Inl e \<Rightarrow> Inl e
         | Inr (techsupportInfo, techsupport') \<Rightarrow>
             (let toBeRemoved =
                    (case techsupportMap m techsupportInfo of
                       Some v \<Rightarrow> Difference v currentClusters
                     | None \<Rightarrow> {});
                  cm1 = fold (insertConsumer techsupportInfo)
                          (status_MatchingClusterRefs techsupport') (clusterMap m);
                  cm2 = eraseConsumers techsupportInfo toBeRemoved cm1
              in Inr (techsupport',
                      m\<lparr>techsupportMap := (techsupportMap m)(techsupportInfo \<mapsto> currentClusters),
                        clusterMap := cm2,
                        techsupports :=
                          (techsupports m)(techsupportInfo \<mapsto> spec_ClusterSelector techsupport')\<rparr>)))"

text \<open>
  \<open>cleanMaps\<close>: the loop ranges over every key of \<open>clusterMap\<close> and erases the request
  from the set stored there.
\<close>

definition cleanMaps ::
  "Scheme option \<Rightarrow> 'sel Techsupport \<Rightarrow> 'sel maps \<Rightarrow> error + ('sel Techsupport \<times> 'sel maps)" where
  "cleanMaps GetScheme techsupport m =
     (case getKeyFromObject GetScheme techsupport of
        Inl e \<Rightarrow> Inl e
      | Inr (techsupportInfo, techsupport') \<Rightarrow>
          Inr (techsupport',
               m\<lparr>techsupportMap := (techsupportMap m)(techsupportInfo := None),
                 techsupports := (techsupports m)(techsupportInfo := None),
                 clusterMap := (\<lambda>c. map_option (Erase techsupportInfo) (clusterMap m c))\<rparr>))"

text \<open>
  A sequence of calls on the index (\<open>Update\<close> is \<open>updateMaps\<close>, \<open>Remove\<close> is
  \<open>cleanMaps\<close>), run from a state; a panic ends the run.
\<close>

datatype 'sel indexCall = Update "'sel Techsupport" | Remove "'sel Techsupport"

fun runCalls :: "Scheme option \<Rightarrow> 'sel indexCall list \<Rightarrow> 'sel maps \<Rightarrow> error + 'sel maps" where
  "runCalls GetScheme [] m = Inr m"
| "runCalls GetScheme (Update techsupport # calls) m =
     (case updateMaps GetScheme techsupport m of
        Inl e \<Rightarrow> Inl e
      | Inr (techsupport', m') \<Rightarrow> runCalls GetScheme calls m')"
| "runCalls GetScheme (Remove techsupport # calls) m =
     (case cleanMaps GetScheme techsupport m of
        Inl e \<Rightarrow> Inl e
      | Inr (techsupport', m') \<Rightarrow> runCalls GetScheme calls m')"

text \<open>
  The targets recorded for a request and the consumers recorded for a target; a missing
  entry has none.
\<close>

definition lookupSet :: "(ObjectReference \<rightharpoonup> Set) \<Rightarrow> ObjectReference \<Rightarrow> ObjectReference set" where
  "lookupSet f k = (case f k of None \<Rightarrow> {} | Some s \<Rightarrow> s)"

definition requestToTargets :: "'sel maps \<Rightarrow> ObjectReference \<Rightarrow> ObjectReference set" where
  "requestToTargets m R = lookupSet (techsupportMap m) R"

definition targetToRequests :: "'sel maps \<Rightarrow> ObjectReference \<Rightarrow> ObjectReference set" where
  "targetToRequests m T = lookupSet (clusterMap m) T"

definition index_consistent :: "'sel maps \<Rightarrow> bool" where
  "index_consistent m = (\<forall>R T. (T \<in> requestToTargets m R) = (R \<in> targetToRequests m T))"

section \<open>The reconciler\<close>

text \<open>
  A \<open>reconcile.Result\<close>, and the calls a reconciliation makes to its collaborators (the
  collector and the object store), kept in the order they are made.
\<close>

record ctrlResult =
  Requeue :: bool
  RequeueAfter :: duration

definition emptyResult :: ctrlResult where
  "emptyResult = \<lparr>Requeue = False, RequeueAfter = 0\<rparr>"

datatype CollectionType = collector_Snapshot | collector_Techsupport

datatype 'sel call =
    CleanupEntriesCall string string CollectionType
  | UpdateResourceCall "'sel Techsupport"

text \<open>
  What the collaborators answer during one reconciliation: the scheme of
  \<open>utils.GetScheme\<close>, the object \<open>GetResource\<close> fetches for the request (or its error), the
  error of the collector's \<open>CleanupEntries\<close> for a storage, name and type, and the error of
  the store's \<open>UpdateResource\<close> for an object (\<open>None\<close> is a nil error).
\<close>

record 'sel env =
  env_GetScheme :: "Scheme option"
  env_GetResource :: "error + 'sel Techsupport"
  env_CleanupEntries :: "string \<Rightarrow> string \<Rightarrow> CollectionType \<Rightarrow> error option"
  env_UpdateResource :: "'sel Techsupport \<Rightarrow> error option"

text \<open>The value of the finalizer constant is declared in the API package; nothing depends on it.\<close>

definition TechsupportFinalizer :: string where
  "TechsupportFinalizer = ''techsupportfinalizer.projectsveltos.io''"

definition ContainsFinalizer :: "'sel Techsupport \<Rightarrow> string \<Rightarrow> bool" where
  "ContainsFinalizer instance finalizer = (finalizer \<in> set (ts_Finalizers instance))"

definition RemoveFinalizer :: "'sel Techsupport \<Rightarrow> string \<Rightarrow> 'sel Techsupport" where
  "RemoveFinalizer instance finalizer =
     instance\<lparr>ts_Finalizers := filter (\<lambda>f. f \<noteq> finalizer) (ts_Finalizers instance)\<rparr>"

definition IgnoreNotFound :: "error \<Rightarrow> error option" where
  "IgnoreNotFound err = (case err of NotFound x \<Rightarrow> None | _ \<Rightarrow> Some err)"

text \<open>
  \<open>removeQueuedJobsAndFinalizer\<close> and \<open>reconcileDelete\<close> return their Go results together
  with the instance as they leave it and the calls they made.
\<close>

definition removeQueuedJobsAndFinalizer ::
  "'sel env \<Rightarrow> 'sel Techsupport \<Rightarrow> CollectionType \<Rightarrow> string \<Rightarrow> string \<Rightarrow>
     error option \<times> 'sel Techsupport \<times> 'sel call list" where
  "removeQueuedJobsAndFinalizer env instance collectionType storage finalizer =
     (case env_CleanupEntries env storage (ts_Name instance) collectionType of
        Some err \<Rightarrow>
          (Some err, instance, [CleanupEntriesCall storage (ts_Name instance) collectionType])
      | None \<Rightarrow>
          (None,
           if ContainsFinalizer instance finalizer then RemoveFinalizer instance finalizer
           else instance,
           [CleanupEntriesCall storage (ts_Name instance) collectionType]))"

definition reconcileDelete ::
  "'sel env \<Rightarrow> 'sel Techsupport \<Rightarrow> CollectionType \<Rightarrow> string \<Rightarrow> string \<Rightarrow>
     (ctrlResult \<times> error option) \<times> 'sel Techsupport \<times> 'sel call list" where
  "reconcileDelete env instance collectionType storage finalizer =
     (case removeQueuedJobsAndFinalizer env instance collectionType storage finalizer of
        (Some err, instance', calls) \<Rightarrow> ((emptyResult, Some err), instance', calls)
      | (None, instance', calls) \<Rightarrow>
          (case env_UpdateResource env instance' of
             Some err \<Rightarrow>
               ((emptyResult, Some err), instance', calls @ [UpdateResourceCall instance'])
           | None \<Rightarrow>
               ((emptyResult, None), instance', calls @ [UpdateResourceCall instance'])))"

text \<open>
  What one run of \<open>TechsupportReconciler\<close> leaves behind: the result and error it
  returns, the instance in memory, the index, and the calls made.
\<close>

record 'sel outcome =
  out_Result :: ctrlResult
  out_err :: "error option"
  out_instance :: "'sel Techsupport option"
  out_maps :: "'sel maps"
  out_calls :: "'sel call list"

text \<open>
  \<open>TechsupportReconciler\<close>. A request without a deletion timestamp goes to
  \<open>reconcileTechsupportNormal\<close>, the other branch, which enters as a parameter: the
  results below concern the terminating branch and hold whatever the normal one does.
  \<open>Inl\<close> is a panic (from \<open>cleanMaps\<close>); an error the function returns is \<open>out_err\<close>.
\<close>

definition TechsupportReconciler ::
  "'sel env \<Rightarrow> ('sel Techsupport \<Rightarrow> 'sel maps \<Rightarrow> error + 'sel outcome) \<Rightarrow> 'sel maps \<Rightarrow>
     error + 'sel outcome" where
  "TechsupportReconciler env reconcileTechsupportNormal m =
     (case env_GetResource env of
        Inl err \<Rightarrow>
          Inr \<lparr>out_Result = emptyResult, out_err = IgnoreNotFound err, out_instance = None,
               out_maps = m, out_calls = []\<rparr>
      | Inr techsupportInstance \<Rightarrow>
          if \<not> IsZero (ts_DeletionTimestamp techsupportInstance) then
            (case reconcileDelete env techsupportInstance collector_Techsupport
                    (spec_Storage techsupportInstance) TechsupportFinalizer of
               ((result, Some err), instance', calls) \<Rightarrow>
                 Inr \<lparr>out_Result = result, out_err = Some err, out_instance = Some instance',
                      out_maps = m, out_calls = calls\<rparr>
             | ((result, None), instance', calls) \<Rightarrow>
                 (case cleanMaps (env_GetScheme env) instance' m of
                    Inl e \<Rightarrow> Inl e
                  | Inr (instance'', m') \<Rightarrow>
                      Inr \<lparr>out_Result = emptyResult, out_err = None,
                           out_instance = Some instance'', out_maps = m',
                           out_calls = calls\<rparr>))
          else reconcileTechsupportNormal techsupportInstance m)"

section \<open>Sample inputs\<close>

text \<open>A collection request on a five-minute schedule that last ran, and is next due, at 300 s.\<close>

definition sampleCollection :: collection where
  "sampleCollection =
     \<lparr>CreationTimestamp = 0, Schedule = ''*/5 * * * *'', StartingDeadlineSeconds = None,
      NextScheduleTime = Some (300 * Second), LastRunTime = Some (300 * Second),
      LastRunStatus = None, FailureMessage = []\<rparr>"

text \<open>
  A CAPI cluster and a SveltosCluster, unpaused, not ready and without labels, and the
  nil label map.
\<close>

definition sampleCluster :: Cluster where
  "sampleCluster =
     \<lparr>cluster_Namespace = ''a'', cluster_Name = ''c1'', cluster_Labels = None,
      cluster_DeletionTimestamp = None, cluster_Paused = False,
      cluster_ControlPlaneReady = False\<rparr>"

definition sampleSveltosCluster :: SveltosCluster where
  "sampleSveltosCluster =
     \<lparr>sveltos_Namespace = ''a'', sveltos_Name = ''c2'', sveltos_Labels = None,
      sveltos_DeletionTimestamp = None, sveltos_Paused = False, sveltos_Ready = False\<rparr>"

text \<open>
  Two Techsupport requests \<open>A\<close> and \<open>B\<close>, two targets, and a scheme that knows the
  Techsupport type.
\<close>

definition sampleGVK :: GroupVersionKind where
  "sampleGVK =
     \<lparr>gvk_Group = ''utils.projectsveltos.io'', gvk_Version = ''v1beta1'',
      gvk_Kind = ''Techsupport''\<rparr>"

definition sampleScheme :: "Scheme option" where
  "sampleScheme = Some (Some [sampleGVK])"

definition sampleTechsupport :: "string \<Rightarrow> ObjectReference list \<Rightarrow> unit Techsupport" where
  "sampleTechsupport name refs =
     \<lparr>ts_Namespace = [], ts_Name = name,
      ts_TypeMeta = \<lparr>gvk_Group = [], gvk_Version = [], gvk_Kind = []\<rparr>,
      ts_CreationTimestamp = 0, ts_DeletionTimestamp = None,
      ts_Finalizers = [],
      spec_ClusterSelector = (), spec_Schedule = ''*/5 * * * *'',
      spec_StartingDeadlineSeconds = None, spec_Storage = ''/collection'',
      status_MatchingClusterRefs = refs, status_LastRunTime = None,
      status_NextScheduleTime = None, status_LastRunStatus = None,
      status_FailureMessage = []\<rparr>"

definition sampleKey :: "string \<Rightarrow> ObjectReference" where
  "sampleKey name =
     \<lparr>ref_Namespace = [], ref_Name = name, ref_Kind = ''Techsupport'',
      ref_APIVersion = ''utils.projectsveltos.io/v1beta1, Kind=Techsupport''\<rparr>"

definition sampleTarget :: "string \<Rightarrow> ObjectReference" where
  "sampleTarget name =
     \<lparr>ref_Namespace = ''a'', ref_Name = name, ref_Kind = ''Cluster'',
      ref_APIVersion = ''cluster.x-k8s.io/v1beta1''\<rparr>"

text \<open>
  \<open>A\<close> matches both targets, \<open>B\<close> matches \<open>c1\<close>, then \<open>A\<close> matches \<open>c2\<close> only, then
  \<open>A\<close> is removed.
\<close>

definition sampleCalls :: "unit indexCall list" where
  "sampleCalls =
     [Update (sampleTechsupport ''A'' [sampleTarget ''c1'', sampleTarget ''c2'']),
      Update (sampleTechsupport ''B'' [sampleTarget ''c1'']),
      Update (sampleTechsupport ''A'' [sampleTarget ''c2'']),
      Remove (sampleTechsupport ''A'' [sampleTarget ''c2''])]"

text \<open>
  A request under deletion that still carries its finalizer, an index in which it is
  recorded, and collaborators whose purge fails or succeeds.
\<close>

definition sampleTerminating :: "unit Techsupport" where
  "sampleTerminating =
     (sampleTechsupport ''A'' [sampleTarget ''c1''])
       \<lparr>ts_DeletionTimestamp := Some (600 * Second), ts_Finalizers := [TechsupportFinalizer]\<rparr>"

definition sampleMaps :: "unit maps" where
  "sampleMaps =
     \<lparr>techsupportMap = [sampleKey ''A'' \<mapsto> {sampleTarget ''c1''}],
      clusterMap = [sampleTarget ''c1'' \<mapsto> {sampleKey ''A''}],
      techsupports = [sampleKey ''A'' \<mapsto> ()]\<rparr>"

definition sampleEnv :: "error option \<Rightarrow> unit env" where
  "sampleEnv purge =
     \<lparr>env_GetScheme = sampleScheme, env_GetResource = Inr sampleTerminating,
      env_CleanupEntries = (\<lambda>storage name collectionType. purge),
      env_UpdateResource = (\<lambda>obj. None)\<rparr>"

definition sampleNormal :: "unit Techsupport \<Rightarrow> unit maps \<Rightarrow> error + unit outcome" where
  "sampleNormal techsupport m =
     Inr \<lparr>out_Result = emptyResult, out_err = None, out_instance = Some techsupport,
          out_maps = m, out_calls = []\<rparr>"

text \<open>
  A parser that knows the five-minute expression, and the occurrence times of the
  schedule it yields.
\<close>

definition sampleParse :: "string \<Rightarrow> string + cronSchedule" where
  "sampleParse expr =
     (if expr = ''*/5 * * * *'' then Inr (every (300 * Second)) else Inl ''unsupported'')"

definition sampleOccurrences :: "time set" where
  "sampleOccurrences = {t. t mod (300 * Second) = 0}"

section \<open>Durations in seconds\<close>

lemma quot_nonneg: "0 \<le> d \<Longrightarrow> quot d Second = d div Second"
  by (simp add: quot_def Second_def sgn_if)

lemma rem_nonneg: "0 \<le> d \<Longrightarrow> rem d Second = d mod Second"
  using quot_nonneg[of d] by (simp add: rem_def Second_def minus_mult_div_eq_mod)

lemma quot_neg: "d < 0 \<Longrightarrow> quot d Second = - ((- d) div Second)"
  by (simp add: quot_def Second_def sgn_if)

lemma rem_neg: "d < 0 \<Longrightarrow> rem d Second = - ((- d) mod Second)"
  using quot_neg[of d] minus_mult_div_eq_mod[of "- d" 1000000000]
  by (simp add: rem_def Second_def)

lemma Seconds_late:
  assumes fl: "ieee_rounding fl" and d: "30 * Second \<le> d" "d \<le> maxDuration"
  shows "30 \<le> Seconds fl d"
proof -
  have mono: "\<And>x y. x \<le> y \<Longrightarrow> fl x \<le> fl y"
    and exact: "\<And>n::int. \<bar>n\<bar> \<le> 2 ^ 53 \<Longrightarrow> fl (of_int n) = of_int n"
    using fl by (auto simp: ieee_rounding_def)
  have d0: "0 \<le> d" using d by (simp add: Second_def)
  define q where "q = d div Second"
  define r where "r = d mod Second"
  have q30: "30 \<le> q" using d unfolding q_def Second_def by linarith
  have qmax: "q \<le> 2 ^ 53" using d unfolding q_def Second_def maxDuration_def by simp
  have r0: "0 \<le> r" and r1: "r < Second" unfolding r_def Second_def by simp_all
  have flq: "fl (of_int q) = of_int q" using exact[of q] q30 qmax by simp
  have flr: "fl (of_int r) = of_int r" using exact[of r] r0 r1 by (simp add: Second_def)
  have fl0: "fl 0 = 0" using exact[of 0] by simp
  have fl30: "fl 30 = 30" using exact[of 30] by simp
  have "0 \<le> fl (real_of_int r / 1000000000)"
    using mono[of 0 "real_of_int r / 1000000000"] r0 fl0 by simp
  then have "30 \<le> real_of_int q + fl (real_of_int r / 1000000000)" using q30 by linarith
  then have "fl 30 \<le> fl (real_of_int q + fl (real_of_int r / 1000000000))" by (rule mono)
  then show ?thesis
    by (simp add: Seconds_def Let_def quot_nonneg[OF d0] rem_nonneg[OF d0] flq flr fl30
        q_def[symmetric] r_def[symmetric])
qed


lemma Seconds_negative:
  assumes fl: "ieee_rounding fl" and d: "d < 0" "minDuration \<le> d"
  shows "Seconds fl d \<le> 0"
proof -
  have mono: "\<And>x y. x \<le> y \<Longrightarrow> fl x \<le> fl y"
    and exact: "\<And>n::int. \<bar>n\<bar> \<le> 2 ^ 53 \<Longrightarrow> fl (of_int n) = of_int n"
    using fl by (auto simp: ieee_rounding_def)
  define q where "q = (- d) div Second"
  define r where "r = (- d) mod Second"
  have q0: "0 \<le> q" using d unfolding q_def Second_def by simp
  have qmax: "q \<le> 2 ^ 53" using d unfolding q_def Second_def minDuration_def by simp
  have r0: "0 \<le> r" and r1: "r < Second" unfolding r_def Second_def by simp_all
  have flq: "fl (of_int (- q)) = of_int (- q)" using exact[of "- q"] q0 qmax by simp
  have flr: "fl (of_int (- r)) = of_int (- r)" using exact[of "- r"] r0 r1 by (simp add: Second_def)
  have fl0: "fl 0 = 0" using exact[of 0] by simp
  have "fl (real_of_int (- r) / 1000000000) \<le> 0"
    using mono[of "real_of_int (- r) / 1000000000" 0] r0 fl0 by simp
  then have "real_of_int (- q) + fl (real_of_int (- r) / 1000000000) \<le> 0" using q0 by simp
  then have "fl (real_of_int (- q) + fl (real_of_int (- r) / 1000000000)) \<le> fl 0" by (rule mono)
  then show ?thesis
    using flq flr
    by (simp add: Seconds_def Let_def quot_neg[OF d(1)] rem_neg[OF d(1)] fl0
        q_def[symmetric] r_def[symmetric])
qed

lemma Seconds_early:
  assumes fl: "ieee_rounding fl" and d: "0 \<le> d" "d < 30 * Second"
  shows "Seconds fl d < 30"
proof -
  have mono: "\<And>x y. x \<le> y \<Longrightarrow> fl x \<le> fl y"
    and exact: "\<And>n::int. \<bar>n\<bar> \<le> 2 ^ 53 \<Longrightarrow> fl (of_int n) = of_int n"
    and err: "\<And>x. \<bar>fl x - x\<bar> \<le> \<bar>x\<bar> / 2 ^ 53"
    using fl by (auto simp: ieee_rounding_def)
  define q where "q = d div Second"
  define r where "r = d mod Second"
  have q0: "0 \<le> q" using d unfolding q_def Second_def by simp
  have q29: "q \<le> 29" using d unfolding q_def Second_def by linarith
  have r0: "0 \<le> r" and r1: "r \<le> 999999999" unfolding r_def Second_def
    using pos_mod_bound[of 1000000000 d] by simp_all
  have flq: "fl (of_int q) = of_int q" using exact[of q] q0 q29 by simp
  have flr: "fl (of_int r) = of_int r" using exact[of r] r0 r1 by simp
  have fl0: "fl 0 = 0" using exact[of 0] by simp
  define x where "x = real_of_int r / 1000000000"
  have x0: "0 \<le> x" and x1: "x \<le> 999999999 / 1000000000"
    using r0 r1 unfolding x_def by simp_all
  define e :: real where "e = 1 / 2 ^ 53"
  have e: "0 < e" "e \<le> 1 / 10 ^ 15" unfolding e_def by simp_all
  have y0: "0 \<le> fl x" using mono[of 0 x] x0 fl0 by simp
  have "fl x - x \<le> \<bar>fl x - x\<bar>" by simp
  also have "\<dots> \<le> \<bar>x\<bar> / 2 ^ 53" by (rule err)
  also have "\<dots> = x * e" using x0 by (simp add: e_def)
  finally have "fl x - x \<le> x * e" .
  then have y1: "fl x \<le> x + x * e" by simp
  have "x * e \<le> 1 * (1 / 10 ^ 15)" using x0 x1 e by (intro mult_mono) simp_all
  with y1 x1 have y2: "fl x \<le> 999999999 / 1000000000 + 1 / 10 ^ 15" by simp
  define s where "s = real_of_int q + fl x"
  have s0: "0 \<le> s" using q0 y0 unfolding s_def by simp
  have s1: "s \<le> 29 + 999999999 / 1000000000 + 1 / 10 ^ 15"
    using q29 y2 unfolding s_def by simp
  have "fl s - s \<le> \<bar>fl s - s\<bar>" by simp
  also have "\<dots> \<le> \<bar>s\<bar> / 2 ^ 53" by (rule err)
  also have "\<dots> = s * e" using s0 by (simp add: e_def)
  finally have "fl s - s \<le> s * e" .
  moreover have "s * e \<le> 30 * (1 / 10 ^ 15)" using s0 s1 e by (intro mult_mono) simp_all
  ultimately have "fl s \<le> s + 30 / 10 ^ 15" by simp
  with s1 have "fl s < 30" by simp
  then show ?thesis
    by (simp add: Seconds_def Let_def quot_nonneg[OF d(1)] rem_nonneg[OF d(1)] flq flr
        q_def[symmetric] r_def[symmetric] x_def[symmetric] s_def[symmetric])
qed

lemma Seconds_threshold:
  assumes "ieee_rounding fl" "minDuration \<le> d" "d \<le> maxDuration"
  shows "(ignoreTimeInSecond \<le> Seconds fl d) = (30 * Second \<le> d)"
proof (cases "30 * Second \<le> d")
  case True
  then show ?thesis using Seconds_late[OF assms(1) True assms(3)]
    by (simp add: ignoreTimeInSecond_def)
next
  case False
  have "Seconds fl d < 30"
  proof (cases "0 \<le> d")
    case True
    then show ?thesis using Seconds_early[OF assms(1) True] False by simp
  next
    case False
    then show ?thesis using Seconds_negative[OF assms(1) _ assms(2)] by simp
  qed
  then show ?thesis using False by (simp add: ignoreTimeInSecond_def)
qed

lemma Sub_range: "minDuration \<le> Sub t u \<and> Sub t u \<le> maxDuration"
  by (simp add: Sub_def minDuration_def maxDuration_def)

lemma Sub_threshold: "(30 * Second \<le> Sub t u) = (30 * Second \<le> t - u)"
  by (simp add: Sub_def minDuration_def maxDuration_def Second_def)

lemma ieee_rounding_id: "ieee_rounding (\<lambda>x. x)"
  by (simp add: ieee_rounding_def)

section \<open>The debounce window\<close>

text \<open>
  Claim C5. When the request is due (\<open>now\<close> is not before the next scheduled time) and a
  last run is recorded, \<open>shouldSchedule\<close> answers false while less than 30 seconds have
  passed since the last run, and true from exactly 30 seconds on. This holds for any
  float64 rounding with the properties of \<open>ieee_rounding\<close>.
\<close>

theorem shouldSchedule_debounce:
  assumes "ieee_rounding fl"
    and "getNextScheduleTime_field c = Some nextScheduledTime"
    and "nextScheduledTime \<le> now"
    and "getLastRunTime c = Some lastRunTime"
  shows "shouldSchedule fl c now = Inr (30 * Second \<le> now - lastRunTime)"
  using assms Sub_range[of now lastRunTime]
  by (simp add: shouldSchedule_def Before_def Seconds_threshold Sub_threshold)

theorem shouldSchedule_debounce_witness:
  "ieee_rounding (\<lambda>x. x) \<and>
   shouldSchedule (\<lambda>x. x) sampleCollection (330 * Second - 1) = Inr False \<and>
   shouldSchedule (\<lambda>x. x) sampleCollection (330 * Second) = Inr True \<and>
   shouldSchedule (\<lambda>x. x) sampleCollection (900 * Second) = Inr True"
  using shouldSchedule_debounce[OF ieee_rounding_id, of sampleCollection "300 * Second" "330 * Second - 1" "300 * Second"]
    shouldSchedule_debounce[OF ieee_rounding_id, of sampleCollection "300 * Second" "330 * Second" "300 * Second"]
    shouldSchedule_debounce[OF ieee_rounding_id, of sampleCollection "300 * Second" "900 * Second" "300 * Second"]
  by (simp add: ieee_rounding_id sampleCollection_def getNextScheduleTime_field_def
      getLastRunTime_def Second_def)

section \<open>The status fold\<close>

text \<open>
  Claim C6. \<open>updateStatus\<close> sets the last-run status to Collected, InProgress or Failed
  for the result of the same name, copies the text of the job's error into the failure
  message for Failed, and returns the collection unchanged for Unavailable.
\<close>

theorem updateStatus_folds:
  "(ResultStatus r = Collected \<longrightarrow>
      (\<exists>c'. updateStatus r c = Inr c' \<and> LastRunStatus c' = Some CollectionStatusCollected)) \<and>
   (ResultStatus r = InProgress \<longrightarrow>
      (\<exists>c'. updateStatus r c = Inr c' \<and> LastRunStatus c' = Some CollectionStatusInProgress)) \<and>
   (ResultStatus r = Failed \<and> Err r = Some msg \<longrightarrow>
      (\<exists>c'. updateStatus r c = Inr c' \<and> LastRunStatus c' = Some CollectionStatusFailed \<and>
         FailureMessage c' = msg)) \<and>
   (ResultStatus r = Unavailable \<longrightarrow> updateStatus r c = Inr c)"
  by (simp add: updateStatus_def setLastRunStatus_def setFailureMessage_def)

theorem updateStatus_folds_witness:
  "(\<exists>c'. updateStatus \<lparr>ResultStatus = Collected, Err = None\<rparr> sampleCollection = Inr c' \<and>
      LastRunStatus c' = Some CollectionStatusCollected) \<and>
   (\<exists>c'. updateStatus \<lparr>ResultStatus = InProgress, Err = None\<rparr> sampleCollection = Inr c' \<and>
      LastRunStatus c' = Some CollectionStatusInProgress) \<and>
   (\<exists>c'. updateStatus \<lparr>ResultStatus = Failed, Err = Some ''disk full''\<rparr> sampleCollection = Inr c' \<and>
      LastRunStatus c' = Some CollectionStatusFailed \<and> FailureMessage c' = ''disk full'') \<and>
   updateStatus \<lparr>ResultStatus = Unavailable, Err = None\<rparr> sampleCollection = Inr sampleCollection"
  using updateStatus_folds[of "\<lparr>ResultStatus = Collected, Err = None\<rparr>" sampleCollection]
    updateStatus_folds[of "\<lparr>ResultStatus = InProgress, Err = None\<rparr>" sampleCollection]
    updateStatus_folds[of "\<lparr>ResultStatus = Failed, Err = Some ''disk full''\<rparr>" sampleCollection "''disk full''"]
    updateStatus_folds[of "\<lparr>ResultStatus = Unavailable, Err = None\<rparr>" sampleCollection]
  by simp

text \<open>
  Claim C10. For a Collected or InProgress result \<open>updateStatus\<close> leaves the failure
  message empty, whatever message an earlier Failed run had stored.
\<close>

theorem updateStatus_clears_message:
  "ResultStatus r = Collected \<or> ResultStatus r = InProgress \<Longrightarrow>
     \<exists>c'. updateStatus r c = Inr c' \<and> FailureMessage c' = []"
  by (auto simp: updateStatus_def setLastRunStatus_def setFailureMessage_def)

theorem updateStatus_clears_message_witness:
  "\<exists>c'. updateStatus \<lparr>ResultStatus = Collected, Err = None\<rparr>
          (sampleCollection\<lparr>LastRunStatus := Some CollectionStatusFailed, FailureMessage := ''disk full''\<rparr>)
        = Inr c' \<and> FailureMessage c' = []"
  using updateStatus_clears_message[of "\<lparr>ResultStatus = Collected, Err = None\<rparr>"
      "sampleCollection\<lparr>LastRunStatus := Some CollectionStatusFailed, FailureMessage := ''disk full''\<rparr>"]
  by simp

section \<open>The update filters\<close>

text \<open>
  Claim C9. Both update filters admit an event whose old object is nil, whatever the pause
  flag, the readiness flag and the labels of the new object are.
\<close>

theorem Update_admits_nil_old:
  "ClusterPredicate_Update None (Some newCluster) = Inr True \<and>
   SveltosClusterPredicate_Update None (Some newSveltosCluster) = Inr True"
  by (simp add: ClusterPredicate_Update_def SveltosClusterPredicate_Update_def)

theorem Update_admits_nil_old_witness:
  "ClusterPredicate_Update None (Some (sampleCluster\<lparr>cluster_Paused := True\<rparr>)) = Inr True \<and>
   SveltosClusterPredicate_Update None (Some (sampleSveltosCluster\<lparr>sveltos_Paused := True\<rparr>))
     = Inr True"
  using Update_admits_nil_old[of "sampleCluster\<lparr>cluster_Paused := True\<rparr>"
      "sampleSveltosCluster\<lparr>sveltos_Paused := True\<rparr>"]
  by simp

text \<open>
  Claim C3, as the code has it. With both objects present, the SveltosCluster filter
  admits exactly when the pause flag goes from true to false, or readiness goes from false
  to true, or the labels differ; the CAPI Cluster filter admits exactly when the pause
  flag goes from true to false or the labels differ, and never reads readiness.
\<close>

theorem Update_admits_iff:
  "SveltosClusterPredicate_Update (Some oldS) (Some newS) =
     Inr ((sveltos_Paused oldS \<and> \<not> sveltos_Paused newS) \<or>
          (\<not> sveltos_Ready oldS \<and> sveltos_Ready newS) \<or>
          \<not> DeepEqual (sveltos_Labels oldS) (sveltos_Labels newS)) \<and>
   ClusterPredicate_Update (Some oldC) (Some newC) =
     Inr ((cluster_Paused oldC \<and> \<not> cluster_Paused newC) \<or>
          \<not> DeepEqual (cluster_Labels oldC) (cluster_Labels newC))"
  by (simp add: ClusterPredicate_Update_def SveltosClusterPredicate_Update_def)

theorem Update_admits_iff_witness:
  "SveltosClusterPredicate_Update (Some sampleSveltosCluster)
     (Some (sampleSveltosCluster\<lparr>sveltos_Ready := True\<rparr>)) = Inr True \<and>
   ClusterPredicate_Update (Some sampleCluster)
     (Some (sampleCluster\<lparr>cluster_Labels := Some Map.empty\<rparr>)) = Inr True \<and>
   ClusterPredicate_Update (Some (sampleCluster\<lparr>cluster_Paused := True\<rparr>))
     (Some (sampleCluster\<lparr>cluster_Paused := True\<rparr>)) = Inr False"
  using Update_admits_iff[of sampleSveltosCluster "sampleSveltosCluster\<lparr>sveltos_Ready := True\<rparr>"
      sampleCluster "sampleCluster\<lparr>cluster_Labels := Some Map.empty\<rparr>"]
    Update_admits_iff[of sampleSveltosCluster sampleSveltosCluster
      "sampleCluster\<lparr>cluster_Paused := True\<rparr>" "sampleCluster\<lparr>cluster_Paused := True\<rparr>"]
  by (simp add: sampleCluster_def sampleSveltosCluster_def DeepEqual_def)

text \<open>
  Claim C3 as stated fails for the CAPI Cluster filter: an update whose only change is
  readiness going from false to true is rejected.
\<close>

theorem Update_readiness_counterexample:
  "ClusterPredicate_Update (Some sampleCluster)
     (Some (sampleCluster\<lparr>cluster_ControlPlaneReady := True\<rparr>)) = Inr False \<and>
   \<not> cluster_ControlPlaneReady sampleCluster \<and>
   cluster_ControlPlaneReady (sampleCluster\<lparr>cluster_ControlPlaneReady := True\<rparr>)"
  by (simp add: ClusterPredicate_Update_def sampleCluster_def DeepEqual_def)

section \<open>The reverse index\<close>

lemma fold_Insert: "fold Insert xs s = set xs \<union> s"
  by (induction xs arbitrary: s) (auto simp: Insert_def)

lemma lookupSet_upd: "lookupSet (f(a \<mapsto> s)) c = (if c = a then s else lookupSet f c)"
  by (simp add: lookupSet_def)

lemma lookupSet_del: "lookupSet (f(a := None)) c = (if c = a then {} else lookupSet f c)"
  by (simp add: lookupSet_def)

lemma lookupSet_insertConsumer:
  "lookupSet (insertConsumer k x cm) c =
     (if c = x then insert k (lookupSet cm c) else lookupSet cm c)"
  by (simp add: insertConsumer_def getClusterMapForEntry_def Insert_def lookupSet_def
      split: option.splits)

lemma lookupSet_eraseConsumer:
  "lookupSet (eraseConsumer k x cm) c =
     (if c = x then lookupSet cm c - {k} else lookupSet cm c)"
  by (simp add: eraseConsumer_def getClusterMapForEntry_def Erase_def lookupSet_def
      split: option.splits)

lemma lookupSet_fold_insertConsumer:
  "lookupSet (fold (insertConsumer k) xs cm) c =
     (if c \<in> set xs then insert k (lookupSet cm c) else lookupSet cm c)"
  by (induction xs arbitrary: cm) (auto simp: lookupSet_insertConsumer)

lemma lookupSet_eraseConsumers:
  "lookupSet (eraseConsumers k rm cm) c =
     (if c \<in> rm then lookupSet cm c - {k} else lookupSet cm c)"
  using lookupSet_eraseConsumer[of k c cm c]
  by (simp add: eraseConsumers_def lookupSet_def)

lemma lookupSet_map_Erase:
  "lookupSet (\<lambda>c. map_option (Erase k) (cm c)) c = lookupSet cm c - {k}"
  by (simp add: lookupSet_def Erase_def split: option.splits)

lemma Difference_lookupSet:
  "(case f k of Some v \<Rightarrow> Difference v cur | None \<Rightarrow> {}) = lookupSet f k - cur"
  by (auto simp: Difference_def Has_def lookupSet_def split: option.splits)

lemma updateMaps_requestToTargets:
  assumes "updateMaps sch ts m = Inr (ts', m')" and "getKeyFromObject sch ts = Inr (k, ts'')"
  shows "requestToTargets m' R =
           (if R = k then set (status_MatchingClusterRefs ts) else requestToTargets m R)"
  using assms
  by (auto simp: updateMaps_def Let_def requestToTargets_def fold_Insert lookupSet_upd)

lemma getKeyFromObject_refs:
  "getKeyFromObject sch ts = Inr (k, ts') \<Longrightarrow>
     status_MatchingClusterRefs ts' = status_MatchingClusterRefs ts"
  by (auto simp: getKeyFromObject_def addTypeInformationToObject_def split: sum.splits option.splits)

lemma updateMaps_targetToRequests:
  assumes "updateMaps sch ts m = Inr (ts', m')" and "getKeyFromObject sch ts = Inr (k, ts'')"
  shows "targetToRequests m' T =
           (if T \<in> set (status_MatchingClusterRefs ts) then insert k (targetToRequests m T)
            else if T \<in> requestToTargets m k then targetToRequests m T - {k}
            else targetToRequests m T)"
  using assms getKeyFromObject_refs[OF assms(2)]
  by (auto simp: updateMaps_def Let_def requestToTargets_def targetToRequests_def fold_Insert
      lookupSet_eraseConsumers lookupSet_fold_insertConsumer Difference_lookupSet)

lemma updateMaps_key:
  "updateMaps sch ts m = Inr (ts', m') \<Longrightarrow> \<exists>k. getKeyFromObject sch ts = Inr (k, ts')"
  by (auto simp: updateMaps_def Let_def split: sum.splits)

lemma updateMaps_consistent:
  assumes "index_consistent m" and "updateMaps sch ts m = Inr (ts', m')"
  shows "index_consistent m'"
proof -
  obtain k where k: "getKeyFromObject sch ts = Inr (k, ts')"
    using updateMaps_key[OF assms(2)] by blast
  show ?thesis
    using assms(1)
    unfolding index_consistent_def updateMaps_requestToTargets[OF assms(2) k]
      updateMaps_targetToRequests[OF assms(2) k]
    by auto
qed

lemma cleanMaps_requestToTargets:
  assumes "cleanMaps sch ts m = Inr (ts', m')" and "getKeyFromObject sch ts = Inr (k, ts'')"
  shows "requestToTargets m' R = (if R = k then {} else requestToTargets m R)"
  using assms by (auto simp: cleanMaps_def requestToTargets_def lookupSet_del)

lemma cleanMaps_targetToRequests:
  assumes "cleanMaps sch ts m = Inr (ts', m')" and "getKeyFromObject sch ts = Inr (k, ts'')"
  shows "targetToRequests m' T = targetToRequests m T - {k}"
  using assms
  by (auto simp: cleanMaps_def targetToRequests_def lookupSet_map_Erase)

lemma cleanMaps_key:
  "cleanMaps sch ts m = Inr (ts', m') \<Longrightarrow> \<exists>k. getKeyFromObject sch ts = Inr (k, ts')"
  by (auto simp: cleanMaps_def split: sum.splits)

lemma cleanMaps_consistent:
  assumes "index_consistent m" and "cleanMaps sch ts m = Inr (ts', m')"
  shows "index_consistent m'"
proof -
  obtain k where k: "getKeyFromObject sch ts = Inr (k, ts')"
    using cleanMaps_key[OF assms(2)] by blast
  show ?thesis
    using assms(1)
    unfolding index_consistent_def cleanMaps_requestToTargets[OF assms(2) k]
      cleanMaps_targetToRequests[OF assms(2) k]
    by auto
qed

lemma emptyMaps_consistent: "index_consistent emptyMaps"
  by (simp add: index_consistent_def emptyMaps_def requestToTargets_def targetToRequests_def
      lookupSet_def)

lemma runCalls_consistent:
  "index_consistent m \<Longrightarrow> runCalls sch calls m = Inr m' \<Longrightarrow> index_consistent m'"
proof (induction calls arbitrary: m)
  case Nil
  then show ?case by simp
next
  case (Cons call calls)
  show ?case
  proof (cases call)
    case (Update ts)
    with Cons.prems(2) obtain ts1 m1 where
      step: "updateMaps sch ts m = Inr (ts1, m1)" and rest: "runCalls sch calls m1 = Inr m'"
      by (auto split: sum.splits)
    from Cons.IH[OF updateMaps_consistent[OF Cons.prems(1) step] rest] show ?thesis .
  next
    case (Remove ts)
    with Cons.prems(2) obtain ts1 m1 where
      step: "cleanMaps sch ts m = Inr (ts1, m1)" and rest: "runCalls sch calls m1 = Inr m'"
      by (auto split: sum.splits)
    from Cons.IH[OF cleanMaps_consistent[OF Cons.prems(1) step] rest] show ?thesis .
  qed
qed

lemma getKeyFromObject_total:
  "\<exists>k ts'. getKeyFromObject (Some (Some gvks)) ts = Inr (k, ts')"
  by (simp add: getKeyFromObject_def addTypeInformationToObject_def split: option.splits)

lemma updateMaps_total: "\<exists>ts' m'. updateMaps (Some (Some gvks)) ts m = Inr (ts', m')"
  using getKeyFromObject_total[of gvks ts] by (auto simp: updateMaps_def Let_def)

lemma cleanMaps_total: "\<exists>ts' m'. cleanMaps (Some (Some gvks)) ts m = Inr (ts', m')"
  using getKeyFromObject_total[of gvks ts] by (auto simp: cleanMaps_def)

lemma runCalls_total: "\<exists>m'. runCalls (Some (Some gvks)) calls m = Inr m'"
proof (induction calls arbitrary: m)
  case Nil
  show ?case by simp
next
  case (Cons call calls)
  show ?case
  proof (cases call)
    case (Update ts)
    obtain ts1 m1 where "updateMaps (Some (Some gvks)) ts m = Inr (ts1, m1)"
      using updateMaps_total by blast
    then show ?thesis using Cons.IH[of m1] Update by simp
  next
    case (Remove ts)
    obtain ts1 m1 where "cleanMaps (Some (Some gvks)) ts m = Inr (ts1, m1)"
      using cleanMaps_total by blast
    then show ?thesis using Cons.IH[of m1] Remove by simp
  qed
qed

text \<open>
  Claim C1. Whatever sequence of \<open>updateMaps\<close> and \<open>cleanMaps\<close> calls has run from the
  empty index (so after each call of any sequence), a target is among the targets recorded
  for a request exactly when the request is among the consumers recorded for the target;
  and a target that no request records has no consumer left. With a scheme that knows the
  Techsupport type no call panics, so every sequence runs to its end.
\<close>

theorem reverse_index_consistency:
  "(GetScheme = Some (Some gvks) \<longrightarrow> (\<exists>m. runCalls GetScheme calls emptyMaps = Inr m)) \<and>
   (\<forall>m. runCalls GetScheme calls emptyMaps = Inr m \<longrightarrow>
      (\<forall>R T. (T \<in> requestToTargets m R) = (R \<in> targetToRequests m T)) \<and>
      (\<forall>T. (\<forall>R. T \<notin> requestToTargets m R) \<longrightarrow> targetToRequests m T = {}))"
proof (intro conjI impI allI)
  assume "GetScheme = Some (Some gvks)"
  then show "\<exists>m. runCalls GetScheme calls emptyMaps = Inr m"
    using runCalls_total by blast
next
  fix m R T
  assume "runCalls GetScheme calls emptyMaps = Inr m"
  from runCalls_consistent[OF emptyMaps_consistent this]
  show "(T \<in> requestToTargets m R) = (R \<in> targetToRequests m T)"
    by (simp add: index_consistent_def)
next
  fix m T
  assume run: "runCalls GetScheme calls emptyMaps = Inr m"
    and none: "\<forall>R. T \<notin> requestToTargets m R"
  from runCalls_consistent[OF emptyMaps_consistent run] none
  show "targetToRequests m T = {}"
    by (auto simp: index_consistent_def)
qed

lemma sample_key: "getKeyFromObject sampleScheme (sampleTechsupport n refs) =
   Inr (sampleKey n, (sampleTechsupport n refs)\<lparr>ts_TypeMeta := sampleGVK\<rparr>)"
  by (simp add: getKeyFromObject_def addTypeInformationToObject_def sampleScheme_def
      sampleTechsupport_def sampleKey_def sampleGVK_def usableKind_def APIVersionInternal_def
      gvk_String_def)

lemma sample_run_targets:
  assumes "runCalls sampleScheme sampleCalls emptyMaps = Inr m"
  shows "requestToTargets m R = (if R = sampleKey ''B'' then {sampleTarget ''c1''} else {})"
proof -
  from assms obtain t1 m1 t2 m2 t3 m3 t4 where
    s1: "updateMaps sampleScheme
           (sampleTechsupport ''A'' [sampleTarget ''c1'', sampleTarget ''c2'']) emptyMaps
         = Inr (t1, m1)" and
    s2: "updateMaps sampleScheme (sampleTechsupport ''B'' [sampleTarget ''c1'']) m1
         = Inr (t2, m2)" and
    s3: "updateMaps sampleScheme (sampleTechsupport ''A'' [sampleTarget ''c2'']) m2
         = Inr (t3, m3)" and
    s4: "cleanMaps sampleScheme (sampleTechsupport ''A'' [sampleTarget ''c2'']) m3
         = Inr (t4, m)"
    by (auto simp: sampleCalls_def split: sum.splits)
  show ?thesis
    unfolding cleanMaps_requestToTargets[OF s4 sample_key]
      updateMaps_requestToTargets[OF s3 sample_key]
      updateMaps_requestToTargets[OF s2 sample_key]
      updateMaps_requestToTargets[OF s1 sample_key]
    by (simp add: requestToTargets_def emptyMaps_def lookupSet_def sampleTechsupport_def
        sampleKey_def)
qed

theorem reverse_index_consistency_witness:
  "\<exists>m. runCalls sampleScheme sampleCalls emptyMaps = Inr m \<and>
        requestToTargets m (sampleKey ''B'') = {sampleTarget ''c1''} \<and>
        targetToRequests m (sampleTarget ''c1'') = {sampleKey ''B''} \<and>
        targetToRequests m (sampleTarget ''c2'') = {}"
proof -
  note main = reverse_index_consistency[of sampleScheme "[sampleGVK]" sampleCalls]
  from main obtain m where run: "runCalls sampleScheme sampleCalls emptyMaps = Inr m"
    by (auto simp: sampleScheme_def)
  note targets = sample_run_targets[OF run]
  from main run have iff: "\<And>R T. (R \<in> targetToRequests m T) = (T \<in> requestToTargets m R)"
    and stale: "\<And>T. (\<forall>R. T \<notin> requestToTargets m R) \<Longrightarrow> targetToRequests m T = {}"
    by auto
  have "targetToRequests m (sampleTarget ''c1'') = {sampleKey ''B''}"
    by (auto simp: iff targets split: if_splits)
  moreover have "targetToRequests m (sampleTarget ''c2'') = {}"
    by (rule stale) (simp add: targets sampleTarget_def)
  ultimately show ?thesis using run targets by auto
qed

section \<open>The terminating path\<close>

text \<open>
  Claim C7. For a request under deletion whose purge (\<open>CleanupEntries\<close>) fails, the
  reconciliation returns that very error; the instance is left as it was fetched, so its
  finalizer list is untouched, and no update is sent to the store; and the index is left
  as it was.
\<close>

theorem purge_failure_surfaces:
  assumes "env_GetResource env = Inr techsupport"
    and "\<not> IsZero (ts_DeletionTimestamp techsupport)"
    and "env_CleanupEntries env (spec_Storage techsupport) (ts_Name techsupport)
           collector_Techsupport = Some err"
  shows "\<exists>out. TechsupportReconciler env normal m = Inr out \<and>
           out_err out = Some err \<and>
           out_instance out = Some techsupport \<and>
           (\<forall>obj. UpdateResourceCall obj \<notin> set (out_calls out)) \<and>
           out_maps out = m"
  using assms
  by (simp add: TechsupportReconciler_def reconcileDelete_def removeQueuedJobsAndFinalizer_def)

theorem purge_failure_surfaces_witness:
  "\<exists>out. TechsupportReconciler (sampleEnv (Some (OtherError ''purge failed''))) sampleNormal
            sampleMaps = Inr out \<and>
         out_err out = Some (OtherError ''purge failed'') \<and>
         out_instance out = Some sampleTerminating \<and>
         TechsupportFinalizer \<in> set (ts_Finalizers sampleTerminating) \<and>
         (\<forall>obj. UpdateResourceCall obj \<notin> set (out_calls out)) \<and>
         out_maps out = sampleMaps"
  using purge_failure_surfaces[of "sampleEnv (Some (OtherError ''purge failed''))"
      sampleTerminating "OtherError ''purge failed''" sampleNormal sampleMaps]
  by (simp add: sampleEnv_def sampleTerminating_def IsZero_def zeroTime_def Second_def)

lemma getKeyFromObject_finalizers:
  "getKeyFromObject sch (RemoveFinalizer ts f) =
     (case getKeyFromObject sch ts of Inl e \<Rightarrow> Inl e
      | Inr (k, ts') \<Rightarrow> Inr (k, RemoveFinalizer ts' f))"
  by (simp add: getKeyFromObject_def addTypeInformationToObject_def RemoveFinalizer_def
      split: option.splits)

text \<open>
  Claim C8. For a request under deletion with key \<open>R\<close>, when the purge succeeds and the
  update is persisted, \<open>cleanMaps\<close> runs and the reconciliation returns no error and the
  empty result (no requeue); afterwards \<open>techsupportMap\<close> has no entry for \<open>R\<close> and no
  consumer set of \<open>clusterMap\<close> holds \<open>R\<close>.
\<close>

theorem deletion_drains_index:
  assumes "env_GetResource env = Inr techsupport"
    and "\<not> IsZero (ts_DeletionTimestamp techsupport)"
    and "env_CleanupEntries env (spec_Storage techsupport) (ts_Name techsupport)
           collector_Techsupport = None"
    and "env_UpdateResource env
           (if ContainsFinalizer techsupport TechsupportFinalizer
            then RemoveFinalizer techsupport TechsupportFinalizer else techsupport) = None"
    and "getKeyFromObject (env_GetScheme env) techsupport = Inr (R, techsupport')"
  shows "\<exists>out. TechsupportReconciler env normal m = Inr out \<and>
           out_err out = None \<and> out_Result out = \<lparr>Requeue = False, RequeueAfter = 0\<rparr> \<and>
           techsupportMap (out_maps out) R = None \<and>
           (\<forall>T. R \<notin> targetToRequests (out_maps out) T)"
proof -
  define inst where "inst = (if ContainsFinalizer techsupport TechsupportFinalizer
            then RemoveFinalizer techsupport TechsupportFinalizer else techsupport)"
  have del: "reconcileDelete env techsupport collector_Techsupport (spec_Storage techsupport)
      TechsupportFinalizer = ((emptyResult, None), inst,
        [CleanupEntriesCall (spec_Storage techsupport) (ts_Name techsupport) collector_Techsupport,
         UpdateResourceCall inst])"
    using assms(3,4) by (simp add: reconcileDelete_def removeQueuedJobsAndFinalizer_def inst_def)
  have "\<exists>inst'. getKeyFromObject (env_GetScheme env) inst = Inr (R, inst')"
    using assms(5) by (cases "ContainsFinalizer techsupport TechsupportFinalizer")
      (simp_all add: inst_def getKeyFromObject_finalizers)
  then obtain inst' where key: "getKeyFromObject (env_GetScheme env) inst = Inr (R, inst')"
    by blast
  obtain m' where clean: "cleanMaps (env_GetScheme env) inst m = Inr (inst', m')"
    using key by (simp add: cleanMaps_def)
  have "techsupportMap m' R = None"
    using clean key by (auto simp: cleanMaps_def)
  moreover have "\<forall>T. R \<notin> targetToRequests m' T"
    using cleanMaps_targetToRequests[OF clean key] by simp
  ultimately show ?thesis
    using assms(1,2) del clean
    by (simp add: TechsupportReconciler_def emptyResult_def)
qed

theorem deletion_drains_index_witness:
  "\<exists>out. TechsupportReconciler (sampleEnv None) sampleNormal sampleMaps = Inr out \<and>
         out_err out = None \<and> out_Result out = \<lparr>Requeue = False, RequeueAfter = 0\<rparr> \<and>
         techsupportMap (out_maps out) (sampleKey ''A'') = None \<and>
         (\<forall>T. sampleKey ''A'' \<notin> targetToRequests (out_maps out) T) \<and>
         sampleKey ''A'' \<in> targetToRequests sampleMaps (sampleTarget ''c1'')"
  using deletion_drains_index[of "sampleEnv None" sampleTerminating "sampleKey ''A''"
      "sampleTerminating\<lparr>ts_TypeMeta := sampleGVK\<rparr>" sampleNormal sampleMaps]
    sample_key[of "''A''" "[sampleTarget ''c1'']"]
  by (simp add: sampleEnv_def sampleTerminating_def IsZero_def zeroTime_def Second_def
      getKeyFromObject_def addTypeInformationToObject_def sampleScheme_def
      sampleTechsupport_def sampleKey_def sampleGVK_def usableKind_def APIVersionInternal_def
      gvk_String_def sampleMaps_def targetToRequests_def lookupSet_def)

end
